theory Spec2Isabelle
  imports Complex_Main "HOL-Library.Word"
begin

section \<open>numpy values\<close>

text \<open>
  The module \<^verbatim>\<open>audioio/playaudio.py\<close> plays numpy arrays of floating-point samples.
  A sample is modelled as an exact real number or one of the three special values of
  IEEE arithmetic, which numpy produces without raising (a division by zero gives
  \<open>nan\<close> or an infinity together with a warning). The arithmetic on the values of
  samples is exact: rounding to 53 bits, overflow to infinity and the sign of zero are
  not part of it. Where a floating-point result decides what the program does next (the
  length that \<open>np.arange\<close> gives the tone of \<open>beep\<close> and the number of its ramp samples)
  the result is rounded as binary64 rounds it.
\<close>

datatype npfloat = Fin real | PInf | NInf | NaN

definition signed_inf :: "real \<Rightarrow> npfloat" where
  "signed_inf x = (if 0 < x then PInf else if x < 0 then NInf else NaN)"

fun np_neg :: "npfloat \<Rightarrow> npfloat" where
  "np_neg (Fin x) = Fin (- x)"
| "np_neg PInf = NInf"
| "np_neg NInf = PInf"
| "np_neg NaN = NaN"

fun np_add :: "npfloat \<Rightarrow> npfloat \<Rightarrow> npfloat" where
  "np_add NaN _ = NaN"
| "np_add _ NaN = NaN"
| "np_add (Fin x) (Fin y) = Fin (x + y)"
| "np_add PInf NInf = NaN"
| "np_add NInf PInf = NaN"
| "np_add PInf _ = PInf"
| "np_add _ PInf = PInf"
| "np_add NInf _ = NInf"
| "np_add _ NInf = NInf"

definition np_sub :: "npfloat \<Rightarrow> npfloat \<Rightarrow> npfloat" where
  "np_sub a b = np_add a (np_neg b)"

fun np_mul :: "npfloat \<Rightarrow> npfloat \<Rightarrow> npfloat" where
  "np_mul NaN _ = NaN"
| "np_mul _ NaN = NaN"
| "np_mul (Fin x) (Fin y) = Fin (x * y)"
| "np_mul (Fin x) PInf = signed_inf x"
| "np_mul (Fin x) NInf = signed_inf (- x)"
| "np_mul PInf (Fin y) = signed_inf y"
| "np_mul NInf (Fin y) = signed_inf (- y)"
| "np_mul PInf PInf = PInf"
| "np_mul PInf NInf = NInf"
| "np_mul NInf PInf = NInf"
| "np_mul NInf NInf = PInf"

fun np_div :: "npfloat \<Rightarrow> npfloat \<Rightarrow> npfloat" where
  "np_div NaN _ = NaN"
| "np_div _ NaN = NaN"
| "np_div (Fin x) (Fin y) = (if y = 0 then signed_inf x else Fin (x / y))"
| "np_div (Fin x) PInf = Fin 0"
| "np_div (Fin x) NInf = Fin 0"
| "np_div PInf (Fin y) = (if 0 \<le> y then PInf else NInf)"
| "np_div NInf (Fin y) = (if 0 \<le> y then NInf else PInf)"
| "np_div PInf PInf = NaN"
| "np_div PInf NInf = NaN"
| "np_div NInf PInf = NaN"
| "np_div NInf NInf = NaN"

fun np_le :: "npfloat \<Rightarrow> npfloat \<Rightarrow> bool" where
  "np_le NaN _ = False"
| "np_le _ NaN = False"
| "np_le NInf _ = True"
| "np_le _ PInf = True"
| "np_le (Fin x) (Fin y) = (x \<le> y)"
| "np_le _ _ = False"

definition np_maximum :: "npfloat \<Rightarrow> npfloat \<Rightarrow> npfloat" where
  \<comment> \<open>\<open>nan\<close> propagates through numpy's maximum.\<close>
  "np_maximum a b = (if a = NaN \<or> b = NaN then NaN else if np_le a b then b else a)"

definition round_half_even :: "real \<Rightarrow> int" where
  \<comment> \<open>\<open>np.round\<close> rounds a tie to the even neighbour.\<close>
  "round_half_even x =
     (let f = \<lfloor>x\<rfloor>; d = x - of_int f
      in if d < 1 / 2 then f else if 1 / 2 < d then f + 1 else if even f then f else f + 1)"

fun np_round :: "npfloat \<Rightarrow> npfloat" where
  "np_round (Fin x) = Fin (of_int (round_half_even x))"
| "np_round v = v"

definition py_int :: "real \<Rightarrow> int" where
  \<comment> \<open>Python's \<open>int(x)\<close> on a finite float truncates towards zero.\<close>
  "py_int x = (if 0 \<le> x then \<lfloor>x\<rfloor> else \<lceil>x\<rceil>)"

definition pow2 :: "int \<Rightarrow> real" where
  "pow2 k = (if 0 \<le> k then 2 ^ nat k else 1 / 2 ^ nat (- k))"

definition binary64 :: "real \<Rightarrow> npfloat" where
  \<comment> \<open>The binary64 number nearest to a real, ties to the even significand: 53 bits
      above \<open>2^-1022\<close>, multiples of \<open>2^-1074\<close> below, an infinity from \<open>2^1024\<close> on.\<close>
  "binary64 x =
     (if x = 0 then Fin 0
      else let e = max \<lfloor>log 2 \<bar>x\<bar>\<rfloor> (- 1022);
               u = pow2 (e - 52);
               y = of_int (round_half_even (\<bar>x\<bar> / u)) * u
           in if pow2 1024 \<le> y then signed_inf x else Fin (sgn x * y))"

definition astype_i2 :: "(npfloat \<Rightarrow> 16 word) \<Rightarrow> npfloat \<Rightarrow> 16 word" where
  \<comment> \<open>\<open>.astype('i2')\<close>: the C conversion of a double to a 16-bit signed integer. It
      truncates; outside the range of the target, and on \<open>nan\<close> and the infinities, C
      leaves the result undefined, so the platform's answer \<open>undef\<close> is a parameter.\<close>
  "astype_i2 undef v =
     (case v of
        Fin x \<Rightarrow> if - 32768 \<le> py_int x \<and> py_int x \<le> 32767 then word_of_int (py_int x)
                 else undef v
      | _ \<Rightarrow> undef v)"

text \<open>
  An array is one-dimensional (a flat sequence of samples) or two-dimensional (a
  sequence of frames, first axis time, second axis channel). \<open>Arr2 c rows\<close> has shape
  \<open>(length rows, c)\<close>; the number of columns is kept apart because \<open>data.shape[1]\<close> is
  defined for an array without rows too.
\<close>

datatype 'a ndarray = Arr1 "'a list" | Arr2 nat "'a list list"

fun wf_array :: "'a ndarray \<Rightarrow> bool" where
  "wf_array (Arr1 xs) = True"
| "wf_array (Arr2 c rows) = list_all (\<lambda>r. length r = c) rows"

fun len :: "'a ndarray \<Rightarrow> nat" where
  \<comment> \<open>\<open>len(a)\<close>: the size of the first axis.\<close>
  "len (Arr1 xs) = length xs"
| "len (Arr2 c rows) = length rows"

fun flat :: "'a ndarray \<Rightarrow> 'a list" where
  "flat (Arr1 xs) = xs"
| "flat (Arr2 c rows) = concat rows"

fun channels_of :: "'a ndarray \<Rightarrow> nat" where
  \<comment> \<open>\<open>channels = 1; if len(data.shape) > 1: channels = data.shape[1]\<close>\<close>
  "channels_of (Arr1 xs) = 1"
| "channels_of (Arr2 c rows) = c"

definition np_sum :: "npfloat list \<Rightarrow> npfloat" where
  "np_sum xs = foldr np_add xs (Fin 0)"

definition np_mean :: "npfloat list \<Rightarrow> npfloat" where
  \<comment> \<open>The mean of no values is \<open>0/0 = nan\<close>, with a warning, not an exception.\<close>
  "np_mean xs = np_div (np_sum xs) (Fin (real (length xs)))"

fun sub_mean_axis0 :: "npfloat ndarray \<Rightarrow> npfloat ndarray" where
  \<comment> \<open>\<open>data - np.mean(data, axis=0)\<close>: a new array; one mean per channel.\<close>
  "sub_mean_axis0 (Arr1 xs) = Arr1 (map (\<lambda>x. np_sub x (np_mean xs)) xs)"
| "sub_mean_axis0 (Arr2 c rows) =
     (let m = map (\<lambda>j. np_mean (map (\<lambda>r. r ! j) rows)) [0..<c]
      in Arr2 c (map (\<lambda>r. map2 np_sub r m) rows))"

definition np_max :: "npfloat list \<Rightarrow> npfloat option" where
  \<comment> \<open>\<open>np.max\<close> of all entries; numpy raises ValueError on an array without entries
      (\<open>None\<close> here).\<close>
  "np_max xs = (case xs of [] \<Rightarrow> None | x # ys \<Rightarrow> Some (foldl np_maximum x ys))"

definition np_zeros1 :: "nat \<Rightarrow> npfloat ndarray" where
  "np_zeros1 m = Arr1 (replicate m (Fin 0))"

definition np_zeros2 :: "nat \<Rightarrow> nat \<Rightarrow> npfloat ndarray" where
  "np_zeros2 m c = Arr2 c (replicate m (replicate c (Fin 0)))"

fun atleast_2d :: "'a ndarray \<Rightarrow> nat \<times> 'a list list" where
  "atleast_2d (Arr1 xs) = (length xs, [xs])"
| "atleast_2d (Arr2 c rows) = (c, rows)"

definition np_vstack :: "'a ndarray \<Rightarrow> 'a ndarray \<Rightarrow> 'a ndarray option" where
  \<comment> \<open>Both arguments are taken \<open>atleast_2d\<close> and joined along the first axis; numpy
      raises ValueError (\<open>None\<close>) when the numbers of columns differ.\<close>
  "np_vstack a b =
     (case (atleast_2d a, atleast_2d b) of
        ((c, rows), (c', rows')) \<Rightarrow> if c = c' then Some (Arr2 c (rows @ rows')) else None)"

fun np_hstack :: "'a ndarray \<Rightarrow> 'a ndarray \<Rightarrow> 'a ndarray option" where
  \<comment> \<open>Joined along the first axis when the first argument is one-dimensional, along the
      second otherwise; numpy raises ValueError (\<open>None\<close>) when the numbers of dimensions
      differ.\<close>
  "np_hstack (Arr1 xs) (Arr1 ys) = Some (Arr1 (xs @ ys))"
| "np_hstack (Arr2 c rows) (Arr2 c' rows') =
     (if length rows = length rows' then Some (Arr2 (c + c') (map2 (@) rows rows')) else None)"
| "np_hstack (Arr1 xs) (Arr2 c' rows') = None"
| "np_hstack (Arr2 c rows) (Arr1 ys) = None"

definition pad :: "nat \<Rightarrow> npfloat ndarray \<Rightarrow> npfloat ndarray option" where
  \<comment> \<open>Lines 138 to 141; \<open>/\<close> between two Python 2 integers is the floor division.\<close>
  "pad channels rawdata =
     (if 1 < channels then np_vstack rawdata (np_zeros2 (11 * len rawdata div 10) channels)
      else np_hstack rawdata (np_zeros1 (11 * len rawdata div 10)))"

definition quantize :: "(npfloat \<Rightarrow> 16 word) \<Rightarrow> npfloat ndarray \<Rightarrow> 16 word ndarray" where
  \<comment> \<open>\<open>np.array(np.round(2.0**15*rawdata)).astype('i2')\<close>\<close>
  "quantize undef rawdata =
     map_ndarray (\<lambda>v. astype_i2 undef (np_round (np_mul (Fin 32768) v))) rawdata"

section \<open>The world outside and the session\<close>

text \<open>
  Every call into the operating system, pyaudio or ossaudiodev is an event. The events
  attempted so far are recorded in the order of the calls.
\<close>

datatype event =
    Os_dup_stderr | Os_close_stderr | Os_open string | Os_dup_saved | Os_close_saved
  | Os_remove string
  | PyAudio_new
  | PyAudio_open nat int
  | Stream_write "16 word ndarray" | Stream_stop_stream | Stream_close
  | PyAudio_terminate
  | Oss_open | Oss_setfmt | Oss_channels nat | Oss_speed int
  | Oss_writeall "16 word ndarray" | Oss_close

datatype pyerror =
    ImportError | IndexError | ValueError | ZeroDivisionError | AttributeError
  | OverflowError
  | NativeError event
  | InvalidArgument

text \<open>
  \<open>InvalidArgument\<close> is the error kind named by the specification; no statement of the
  module raises it.

  The environment holds what the module takes from outside. \<open>audio_modules\<close> is the
  table of the module \<^verbatim>\<open>audiomodules\<close>, which is imported but not part of the sources:
  it is a parameter, looked up without failure (the capability registry never throws).
  \<open>raises\<close> tells, from the calls made so far, whether a native call raises.
  \<open>undef_cast\<close> is the platform's conversion of a double that does not fit 16 bits.
  \<open>round64\<close> is the rounding of the platform's float operations: the quotient and the
  product of two Python floats are the exact result rounded by it. On IEEE hardware it
  is \<open>binary64\<close>; what is proved of every environment holds of that one.
\<close>

record env =
  audio_modules :: "string \<Rightarrow> bool"
  raises :: "event list \<Rightarrow> event \<Rightarrow> bool"
  undef_cast :: "npfloat \<Rightarrow> 16 word"
  round64 :: "real \<Rightarrow> npfloat"

datatype handle_obj = PyAudio_obj | True_obj

datatype close_impl = Close_default | Close_pyaudio | Close_ossaudiodev

datatype play_impl = Play_default | Play_pyaudio | Play_ossaudiodev

datatype open_impl = Open_pyaudio | Open_ossaudiodev

text \<open>
  The attributes of a \<open>PlayAudio\<close> object, with the bound methods \<open>self.close\<close> and
  \<open>self._do_play\<close> as tags, and the part of the world the methods act on: the float
  arrays by address (an array passed to \<open>play\<close> is a reference, \<open>/=\<close> and item
  assignment change an array in place), the native calls and the warnings issued.
  \<open>self.stream\<close> and \<open>self.osshandle\<close> do not exist before the first successful
  \<open>open_pyaudio\<close> or \<open>open_ossaudiodev\<close>; they are read only by methods that are bound
  after the attribute has been set, so the missing attribute is modelled as \<open>None\<close>.
\<close>

record state =
  handle :: "handle_obj option"
  stream :: "unit option"
  osshandle :: "unit option"
  close :: close_impl
  do_play :: play_impl
  store :: "nat \<Rightarrow> npfloat ndarray"
  next_addr :: nat
  calls :: "event list"
  warnings :: "string list"

type_synonym 'a py = "state \<Rightarrow> (pyerror + 'a) \<times> state"

definition seq :: "'a py \<Rightarrow> ('a \<Rightarrow> 'b py) \<Rightarrow> 'b py" where
  \<comment> \<open>One statement after another; an exception ends the sequence.\<close>
  "seq m f s = (case m s of (Inl e, s') \<Rightarrow> (Inl e, s') | (Inr x, s') \<Rightarrow> f x s')"

definition ret :: "'a \<Rightarrow> 'a py" where
  "ret x s = (Inr x, s)"

definition raise :: "pyerror \<Rightarrow> 'a py" where
  "raise e s = (Inl e, s)"

definition modify :: "(state \<Rightarrow> state) \<Rightarrow> unit py" where
  "modify f s = (Inr (), f s)"

definition native :: "env \<Rightarrow> event \<Rightarrow> unit py" where
  "native E ev s =
     (let s' = s\<lparr>calls := calls s @ [ev]\<rparr>
      in if raises E (calls s) ev then (Inl (NativeError ev), s') else (Inr (), s'))"

definition value_error :: "'a option \<Rightarrow> 'a py" where
  "value_error r = (case r of None \<Rightarrow> raise ValueError | Some x \<Rightarrow> ret x)"

definition load :: "nat \<Rightarrow> npfloat ndarray py" where
  "load a s = (Inr (store s a), s)"

definition new_array :: "npfloat ndarray \<Rightarrow> nat py" where
  \<comment> \<open>A new array object: the next address that has not been used.\<close>
  "new_array arr s =
     (Inr (next_addr s), s\<lparr>store := (store s)(next_addr s := arr), next_addr := Suc (next_addr s)\<rparr>)"

definition idiv :: "nat \<Rightarrow> npfloat \<Rightarrow> unit py" where
  \<comment> \<open>\<open>a /= v\<close>, in place.\<close>
  "idiv a v = modify (\<lambda>s. s\<lparr>store := (store s)(a := map_ndarray (\<lambda>x. np_div x v) (store s a))\<rparr>)"

definition warn :: "string \<Rightarrow> unit py" where
  "warn msg = modify (\<lambda>s. s\<lparr>warnings := warnings s @ [msg]\<rparr>)"

section \<open>The class PlayAudio\<close>

definition m_close :: "unit py" where
  \<comment> \<open>\<open>_close\<close>: pass\<close>
  "m_close = ret ()"

definition m_play :: "nat \<Rightarrow> real \<Rightarrow> unit py" where
  \<comment> \<open>\<open>_play\<close>: the default implementation does nothing.\<close>
  "m_play data rate = ret ()"

definition handle_method :: "env \<Rightarrow> event \<Rightarrow> unit py" where
  \<comment> \<open>A method of \<open>self.handle\<close>: \<open>None\<close> and \<open>True\<close> have neither \<open>open\<close> nor
      \<open>terminate\<close>.\<close>
  "handle_method E ev s =
     (case handle s of Some PyAudio_obj \<Rightarrow> native E ev s | _ \<Rightarrow> raise AttributeError s)"

definition open_pyaudio :: "env \<Rightarrow> unit py" where
  "open_pyaudio E =
     (\<lambda>s. if \<not> audio_modules E ''pyaudio'' then raise ImportError s
          else seq (native E Os_dup_stderr) (\<lambda>_.
               seq (native E Os_close_stderr) (\<lambda>_.
               seq (native E (Os_open ''tmpfile.tmp'')) (\<lambda>_.
               seq (native E PyAudio_new) (\<lambda>_.
               seq (modify (\<lambda>s. s\<lparr>handle := Some PyAudio_obj\<rparr>)) (\<lambda>_.
               seq (modify (\<lambda>s. s\<lparr>stream := None\<rparr>)) (\<lambda>_.
               seq (native E Os_close_stderr) (\<lambda>_.
               seq (native E Os_dup_saved) (\<lambda>_.
               seq (native E Os_close_saved) (\<lambda>_.
               seq (native E (Os_remove ''tmpfile.tmp'')) (\<lambda>_.
               seq (modify (\<lambda>s. s\<lparr>do_play := Play_pyaudio\<rparr>)) (\<lambda>_.
               modify (\<lambda>s. s\<lparr>close := Close_pyaudio\<rparr>)))))))))))) s)"

definition m_play_pyaudio :: "env \<Rightarrow> nat \<Rightarrow> real \<Rightarrow> unit py" where
  "m_play_pyaudio E data rate =
     seq (load data) (\<lambda>d.
     seq (handle_method E (PyAudio_open (channels_of d) (py_int rate))) (\<lambda>_.
     seq (modify (\<lambda>s. s\<lparr>stream := Some ()\<rparr>)) (\<lambda>_.
     seq (load data) (\<lambda>d'.
     seq (new_array (sub_mean_axis0 d')) (\<lambda>rawdata.
     seq (load rawdata) (\<lambda>r.
     seq (value_error (np_max (flat r))) (\<lambda>m.
     seq (idiv rawdata (np_mul m (Fin 2))) (\<lambda>_.
     seq (load rawdata) (\<lambda>r'.
     seq (value_error (pad (channels_of d) r')) (\<lambda>p.
     seq (new_array p) (\<lambda>padded.
     seq (load padded) (\<lambda>r''.
     seq (native E (Stream_write (quantize (undef_cast E) r''))) (\<lambda>_.
     seq (native E Stream_stop_stream) (\<lambda>_.
     seq (native E Stream_close) (\<lambda>_.
     modify (\<lambda>s. s\<lparr>stream := None\<rparr>))))))))))))))))"

definition m_close_pyaudio :: "env \<Rightarrow> unit py" where
  "m_close_pyaudio E =
     seq (\<lambda>s. if stream s \<noteq> None then native E Stream_close s else ret () s) (\<lambda>_.
     seq (modify (\<lambda>s. s\<lparr>stream := None\<rparr>)) (\<lambda>_.
     handle_method E PyAudio_terminate))"

definition open_ossaudiodev :: "env \<Rightarrow> unit py" where
  "open_ossaudiodev E =
     (\<lambda>s. if \<not> audio_modules E ''ossaudiodev'' then raise ImportError s
          else seq (modify (\<lambda>s. s\<lparr>handle := Some True_obj\<rparr>)) (\<lambda>_.
               seq (modify (\<lambda>s. s\<lparr>osshandle := None\<rparr>)) (\<lambda>_.
               seq (modify (\<lambda>s. s\<lparr>do_play := Play_ossaudiodev\<rparr>)) (\<lambda>_.
               modify (\<lambda>s. s\<lparr>close := Close_ossaudiodev\<rparr>)))) s)"

definition m_play_ossaudiodev :: "env \<Rightarrow> nat \<Rightarrow> real \<Rightarrow> unit py" where
  "m_play_ossaudiodev E data rate =
     seq (load data) (\<lambda>d.
     seq (native E Oss_open) (\<lambda>_.
     seq (modify (\<lambda>s. s\<lparr>osshandle := Some ()\<rparr>)) (\<lambda>_.
     seq (native E Oss_setfmt) (\<lambda>_.
     seq (native E (Oss_channels (channels_of d))) (\<lambda>_.
     seq (native E (Oss_speed (py_int rate))) (\<lambda>_.
     seq (load data) (\<lambda>d'.
     seq (new_array (sub_mean_axis0 d')) (\<lambda>rawdata.
     seq (load rawdata) (\<lambda>r.
     seq (value_error (np_max (flat r))) (\<lambda>m.
     seq (idiv rawdata (np_mul m (Fin 2))) (\<lambda>_.
     seq (load rawdata) (\<lambda>r'.
     seq (native E (Oss_writeall (quantize (undef_cast E) r'))) (\<lambda>_.
     seq (native E Oss_close) (\<lambda>_.
     modify (\<lambda>s. s\<lparr>osshandle := None\<rparr>)))))))))))))))"

definition m_close_ossaudiodev :: "env \<Rightarrow> unit py" where
  "m_close_ossaudiodev E =
     seq (modify (\<lambda>s. s\<lparr>handle := None\<rparr>)) (\<lambda>_.
     seq (\<lambda>s. if osshandle s \<noteq> None then native E Oss_close s else ret () s) (\<lambda>_.
     modify (\<lambda>s. s\<lparr>osshandle := None\<rparr>)))"

fun open_device :: "env \<Rightarrow> open_impl \<Rightarrow> unit py" where
  "open_device E Open_pyaudio = open_pyaudio E"
| "open_device E Open_ossaudiodev = open_ossaudiodev E"

definition audio_open :: "(string \<times> open_impl) list" where
  "audio_open = [(''pyaudio'', Open_pyaudio), (''ossaudiodev'', Open_ossaudiodev)]"

fun open_loop :: "env \<Rightarrow> (string \<times> open_impl) list \<Rightarrow> unit py" where
  \<comment> \<open>The \<open>for\<close> loop of \<open>open\<close>: \<open>continue\<close> on a module that is not available,
      \<open>break\<close> after the first \<open>open_device()\<close> that returns, a warning after one that
      raises (the bare \<open>except:\<close> catches every exception).\<close>
  "open_loop E [] s = (Inr (), s)"
| "open_loop E ((lib, dev) # rest) s =
     (if \<not> audio_modules E lib then open_loop E rest s
      else case open_device E dev s of
             (Inr _, s') \<Rightarrow> (Inr (), s')
           | (Inl e, s') \<Rightarrow>
               open_loop E rest (snd (warn (''failed to open audio module '' @ lib) s')))"

definition open_session :: "env \<Rightarrow> unit py" where
  \<comment> \<open>The method \<open>open\<close>.\<close>
  "open_session E = open_loop E audio_open"

definition call_close :: "env \<Rightarrow> unit py" where
  \<comment> \<open>\<open>self.close()\<close>\<close>
  "call_close E s =
     (case close s of
        Close_default \<Rightarrow> m_close s
      | Close_pyaudio \<Rightarrow> m_close_pyaudio E s
      | Close_ossaudiodev \<Rightarrow> m_close_ossaudiodev E s)"

definition call_do_play :: "env \<Rightarrow> nat \<Rightarrow> real \<Rightarrow> unit py" where
  \<comment> \<open>\<open>self._do_play(data, rate)\<close>\<close>
  "call_do_play E data rate s =
     (case do_play s of
        Play_default \<Rightarrow> m_play data rate s
      | Play_pyaudio \<Rightarrow> m_play_pyaudio E data rate s
      | Play_ossaudiodev \<Rightarrow> m_play_ossaudiodev E data rate s)"

definition play :: "env \<Rightarrow> nat \<Rightarrow> real \<Rightarrow> unit py" where
  "play E data rate =
     seq (\<lambda>s. if handle s = None then open_session E s else ret () s) (\<lambda>_.
     call_do_play E data rate)"

definition dunder_init :: "env \<Rightarrow> unit py" where
  \<comment> \<open>\<open>__init__\<close>\<close>
  "dunder_init E =
     seq (modify (\<lambda>s. s\<lparr>handle := None\<rparr>)) (\<lambda>_.
     seq (modify (\<lambda>s. s\<lparr>close := Close_default\<rparr>)) (\<lambda>_.
     seq (modify (\<lambda>s. s\<lparr>do_play := Play_default\<rparr>)) (\<lambda>_.
     open_session E)))"

definition dunder_del :: "env \<Rightarrow> unit py" where
  \<comment> \<open>\<open>__del__\<close>\<close>
  "dunder_del E = call_close E"

definition arange_length :: "env \<Rightarrow> real \<Rightarrow> npfloat \<Rightarrow> pyerror + nat" where
  \<comment> \<open>The length of \<open>np.arange(0.0, stop, step)\<close>: numpy divides \<open>stop - 0.0\<close> by
      \<open>step\<close> as Python floats and takes the ceiling, which has to fit the 64 bits of
      an index; a quotient that is zero for a \<open>stop\<close> that is not (underflow, or an
      infinite step) gives one value when it is \<open>+0.0\<close> and none when it is \<open>-0.0\<close>.
      Memory is not bounded here: an array of any length that fits an index is made.\<close>
  "arange_length E stop step =
     (case step of
        Fin st \<Rightarrow>
          if st = 0 then Inl ZeroDivisionError
          else (case round64 E (stop / st) of
                  Fin q \<Rightarrow>
                    if q = 0 \<and> stop \<noteq> 0 then Inr (if (stop < 0) = (st < 0) then 1 else 0)
                    else if \<lceil>q\<rceil> < - (2 ^ 63) \<or> 2 ^ 63 \<le> \<lceil>q\<rceil> then Inl OverflowError
                    else Inr (nat \<lceil>q\<rceil>)
                | NaN \<Rightarrow> Inl ValueError
                | _ \<Rightarrow> Inl OverflowError)
      | PInf \<Rightarrow> Inr (if 0 < stop then 1 else 0)
      | NInf \<Rightarrow> Inr (if stop < 0 then 1 else 0)
      | NaN \<Rightarrow> Inl ValueError)"

definition np_arange :: "env \<Rightarrow> real \<Rightarrow> npfloat \<Rightarrow> pyerror + real list" where
  \<comment> \<open>\<open>np.arange(0.0, stop, step)\<close>: the values \<open>0.0 + k * step\<close>.\<close>
  "np_arange E stop step =
     (case arange_length E stop step of
        Inl e \<Rightarrow> Inl e
      | Inr n \<Rightarrow> Inr (map (\<lambda>k. real k * (case step of Fin st \<Rightarrow> st | _ \<Rightarrow> 0)) [0..<n]))"

definition ramp_count :: "env \<Rightarrow> real \<Rightarrow> real \<Rightarrow> pyerror + int" where
  \<comment> \<open>\<open>nr = int(np.round(ramp*rate))\<close>: the product as a Python float, rounded to an
      integer with ties to even; \<open>int\<close> raises on an infinity and on \<open>nan\<close>.\<close>
  "ramp_count E ramp rate =
     (case round64 E (ramp * rate) of
        Fin p \<Rightarrow> Inr (round_half_even p)
      | NaN \<Rightarrow> Inl ValueError
      | _ \<Rightarrow> Inl OverflowError)"

definition xrange :: "int \<Rightarrow> pyerror + nat list" where
  \<comment> \<open>Python 2's \<open>xrange(n)\<close> takes a C long, of 64 bits here, and is empty for
      \<open>n \<le> 0\<close>.\<close>
  "xrange n = (if n < - (2 ^ 63) \<or> 2 ^ 63 \<le> n then Inl OverflowError else Inr [0..<nat n])"

definition lift :: "pyerror + 'a \<Rightarrow> 'a py" where
  "lift r s = (case r of Inl e \<Rightarrow> (Inl e, s) | Inr x \<Rightarrow> (Inr x, s))"

definition item :: "nat \<Rightarrow> int \<Rightarrow> nat option" where
  \<comment> \<open>The position that the index \<open>i\<close> names on an axis of size \<open>n\<close>: \<open>-1\<close> is the
      last position; \<open>None\<close> when numpy raises IndexError.\<close>
  "item n i =
     (if - int n \<le> i \<and> i < 0 then Some (nat (i + int n))
      else if 0 \<le> i \<and> i < int n then Some (nat i)
      else None)"

definition imul_item :: "nat \<Rightarrow> int \<Rightarrow> npfloat \<Rightarrow> unit py" where
  \<comment> \<open>\<open>a[i] *= f\<close>, in place; on a two-dimensional array the frame \<open>i\<close> is scaled.\<close>
  "imul_item a i f s =
     (case item (len (store s a)) i of
        None \<Rightarrow> raise IndexError s
      | Some j \<Rightarrow>
          modify (\<lambda>s. s\<lparr>store := (store s)(a :=
            (case store s a of
               Arr1 xs \<Rightarrow> Arr1 (xs[j := np_mul (xs ! j) f])
             | Arr2 c rows \<Rightarrow> Arr2 c (rows[j := map (\<lambda>x. np_mul x f) (rows ! j)])))\<rparr>) s)"

fun ramp_loop :: "nat \<Rightarrow> int \<Rightarrow> nat list \<Rightarrow> unit py" where
  \<comment> \<open>The body of \<open>for k in xrange(nr)\<close>, for the values of \<open>k\<close> still to come.\<close>
  "ramp_loop data nr [] = ret ()"
| "ramp_loop data nr (k # ks) =
     seq (imul_item data (int k) (Fin (real k / real_of_int nr))) (\<lambda>_.
     seq (load data) (\<lambda>d.
     seq (imul_item data (int (len d) - int k - 1) (Fin (real k / real_of_int nr))) (\<lambda>_.
     ramp_loop data nr ks)))"

definition beep :: "env \<Rightarrow> real \<Rightarrow> real \<Rightarrow> real \<Rightarrow> real \<Rightarrow> unit py" where
  \<comment> \<open>\<open>1.0/rate\<close> on Python floats raises ZeroDivisionError for a rate of zero.\<close>
  "beep E duration frequency rate ramp =
     (\<lambda>s. if rate = 0 then raise ZeroDivisionError s
          else seq (lift (np_arange E duration (round64 E (1 / rate)))) (\<lambda>ts.
               seq (new_array (Arr1 (map Fin ts))) (\<lambda>time.
               seq (load time) (\<lambda>t.
               seq (new_array (map_ndarray
                      (\<lambda>v. case v of Fin x \<Rightarrow> Fin (sin (2 * pi * frequency * x)) | _ \<Rightarrow> NaN) t)) (\<lambda>data.
               seq (lift (ramp_count E ramp rate)) (\<lambda>nr.
               seq (lift (xrange nr)) (\<lambda>ks.
               seq (ramp_loop data nr ks) (\<lambda>_.
               play E data rate))))))) s)"

definition dunder_enter :: "unit py" where
  \<comment> \<open>\<open>__enter__\<close> returns \<open>self\<close>.\<close>
  "dunder_enter = ret ()"

definition dunder_exit :: "env \<Rightarrow> pyerror option \<Rightarrow> pyerror option py" where
  \<comment> \<open>\<open>__exit__(self, type, value, tb)\<close>: \<open>value\<close> is \<open>None\<close> or the exception raised in
      the block.\<close>
  "dunder_exit E v = seq (dunder_del E) (\<lambda>_. ret v)"

fun truthy :: "pyerror option \<Rightarrow> bool" where
  \<comment> \<open>The truth value of what \<open>__exit__\<close> returns: \<open>None\<close> is false, an exception
      instance is true.\<close>
  "truthy None = False"
| "truthy (Some e) = True"

definition with_open_audio :: "env \<Rightarrow> unit py \<Rightarrow> unit py" where
  \<comment> \<open>\<open>with open_audio() as audio: body\<close>, where \<open>open_audio = PlayAudio\<close>. The
      statement calls \<open>__exit__\<close> with the exception raised by the body and raises it
      again unless the result is true; after a body that returns it calls \<open>__exit__\<close>
      with \<open>None\<close>.\<close>
  "with_open_audio E body =
     seq (dunder_init E) (\<lambda>_.
     seq dunder_enter (\<lambda>_.
     (\<lambda>s. case body s of
            (Inl e, s') \<Rightarrow>
              seq (dunder_exit E (Some e)) (\<lambda>v. if truthy v then ret () else raise e) s'
          | (Inr _, s') \<Rightarrow> seq (dunder_exit E None) (\<lambda>_. ret ()) s')))"

section \<open>Predicates and fixtures\<close>

definition no_candidate_succeeds :: "env \<Rightarrow> state \<Rightarrow> bool" where
  \<comment> \<open>Neither candidate of \<open>open\<close> gets through from this state: pyaudio is skipped or
      its \<open>open_pyaudio\<close> raises, and ossaudiodev, whose \<open>open_ossaudiodev\<close> raises only
      when the module is not available, is skipped.\<close>
  "no_candidate_succeeds E s \<longleftrightarrow>
     (audio_modules E ''pyaudio'' \<longrightarrow> fst (open_pyaudio E s) \<noteq> Inr ()) \<and>
     \<not> audio_modules E ''ossaudiodev''"

definition default_bound :: "state \<Rightarrow> bool" where
  \<comment> \<open>\<open>self.close\<close> is \<open>_close\<close> and \<open>self._do_play\<close> is \<open>_play\<close>.\<close>
  "default_bound s \<longleftrightarrow> close s = Close_default \<and> do_play s = Play_default"

definition host :: "string list \<Rightarrow> event list \<Rightarrow> env" where
  \<comment> \<open>A host with IEEE arithmetic on which the modules \<open>libs\<close> can be imported, the
      native calls \<open>bad\<close> raise whenever they are made, and an undefined conversion
      gives 0.\<close>
  "host libs bad =
     \<lparr>audio_modules = (\<lambda>lib. lib \<in> set libs), raises = (\<lambda>_ ev. ev \<in> set bad),
      undef_cast = (\<lambda>_. 0), round64 = binary64\<rparr>"

definition world :: "npfloat ndarray \<Rightarrow> state" where
  \<comment> \<open>Before the constructor runs: one array, the caller's, at address 0.\<close>
  "world d =
     \<lparr>handle = None, stream = None, osshandle = None, close = Close_default,
      do_play = Play_default, store = (\<lambda>_. Arr1 [])(0 := d), next_addr = 1, calls = [],
      warnings = []\<rparr>"





definition never_raises :: "pyerror \<Rightarrow> 'a py \<Rightarrow> bool" where
  \<comment> \<open>The statement never ends in the exception \<open>e\<close>.\<close>
  "never_raises e m \<longleftrightarrow> (\<forall>s. fst (m s) \<noteq> Inl e)"

definition keeps :: "nat \<Rightarrow> 'a py \<Rightarrow> bool" where
  \<comment> \<open>The statement leaves every array below address \<open>n\<close> as it is, when the arrays
      made so far include those.\<close>
  "keeps n m \<longleftrightarrow>
     (\<forall>s. n \<le> next_addr s \<longrightarrow>
          n \<le> next_addr (snd (m s)) \<and> (\<forall>a<n. store (snd (m s)) a = store s a))"

definition normalized :: "npfloat ndarray \<Rightarrow> npfloat ndarray option" where
  \<comment> \<open>What lines 135 and 136 (193 and 194) leave in \<open>rawdata\<close>; \<open>None\<close> when \<open>np.max\<close>
      raises.\<close>
  "normalized d =
     (case np_max (flat (sub_mean_axis0 d)) of
        None \<Rightarrow> None
      | Some m \<Rightarrow> Some (map_ndarray (\<lambda>x. np_div x (np_mul m (Fin 2))) (sub_mean_axis0 d)))"

definition silent :: "npfloat ndarray \<Rightarrow> bool" where
  \<comment> \<open>A buffer with at least one sample, all of them zero.\<close>
  "silent d \<longleftrightarrow> wf_array d \<and> flat d \<noteq> [] \<and> list_all (\<lambda>x. x = Fin 0) (flat d)"

fun frames_from :: "nat \<Rightarrow> 'a ndarray \<Rightarrow> 'a list" where
  \<comment> \<open>The samples of the frames from frame \<open>k\<close> on.\<close>
  "frames_from k (Arr1 xs) = drop k xs"
| "frames_from k (Arr2 c rows) = concat (drop k rows)"

definition pyaudio_session :: "npfloat ndarray \<Rightarrow> state" where
  \<comment> \<open>\<open>PlayAudio()\<close> on a host with pyaudio where every native call returns; the
      caller holds the array \<open>d\<close>.\<close>
  "pyaudio_session d = snd (dunder_init (host [''pyaudio''] []) (world d))"

definition ossaudiodev_session :: "npfloat ndarray \<Rightarrow> state" where
  \<comment> \<open>\<open>PlayAudio()\<close> on a host with ossaudiodev only.\<close>
  "ossaudiodev_session d = snd (dunder_init (host [''ossaudiodev''] []) (world d))"

section \<open>Opening a session\<close>

lemmas run_defs = seq_def native_def modify_def raise_def ret_def load_def new_array_def
  idiv_def warn_def value_error_def handle_method_def

lemmas method_defs = play_def dunder_init_def open_session_def audio_open_def
  call_do_play_def call_close_def m_play_def m_close_def
  open_pyaudio_def open_ossaudiodev_def m_play_pyaudio_def m_play_ossaudiodev_def
  m_close_pyaudio_def m_close_ossaudiodev_def

lemmas numpy_defs = np_max_def np_mean_def np_sum_def np_sub_def np_maximum_def pad_def
  np_zeros1_def np_zeros2_def quantize_def astype_i2_def py_int_def round_half_even_def

lemma replicate_numeral: "replicate (numeral k) x = x # replicate (pred_numeral k) x"
  by (simp add: numeral_eq_Suc)

lemma open_loop_returns: "fst (open_loop E cs s) = Inr ()"
  by (induction cs arbitrary: s) (auto split: prod.splits sum.splits)

lemma open_pyaudio_raise_bindings:
  assumes "fst (open_pyaudio E s) \<noteq> Inr ()"
  shows "close (snd (open_pyaudio E s)) = close s \<and>
         do_play (snd (open_pyaudio E s)) = do_play s"
  using assms
  by (auto simp: open_pyaudio_def seq_def native_def modify_def raise_def Let_def
           split: if_splits)

lemma open_pyaudio_warnings: "warnings (snd (open_pyaudio E s)) = warnings s"
  by (auto simp: open_pyaudio_def seq_def native_def modify_def raise_def Let_def
           split: if_splits)

lemma open_session_unfold:
  "open_session E s =
     (if \<not> audio_modules E ''pyaudio'' then open_loop E [(''ossaudiodev'', Open_ossaudiodev)] s
      else case open_pyaudio E s of
             (Inr _, s') \<Rightarrow> (Inr (), s')
           | (Inl e, s') \<Rightarrow> open_loop E [(''ossaudiodev'', Open_ossaudiodev)]
                 (snd (warn (''failed to open audio module '' @ ''pyaudio'') s')))"
  by (simp add: open_session_def audio_open_def)

lemma open_loop_oss_warnings:
  "warnings (snd (open_loop E [(''ossaudiodev'', Open_ossaudiodev)] s)) = warnings s"
  by (auto simp: open_ossaudiodev_def seq_def modify_def raise_def)

lemma no_candidate_bindings:
  assumes "no_candidate_succeeds E s"
  shows "close (snd (open_session E s)) = close s \<and>
         do_play (snd (open_session E s)) = do_play s"
proof (cases "audio_modules E ''pyaudio''")
  case False
  with assms show ?thesis
    by (simp add: open_session_unfold no_candidate_succeeds_def)
next
  case True
  with assms have f: "fst (open_pyaudio E s) \<noteq> Inr ()"
    by (simp add: no_candidate_succeeds_def)
  obtain r s' where r: "open_pyaudio E s = (r, s')"
    by (cases "open_pyaudio E s")
  with f obtain e where e: "r = Inl e"
    by (cases r) auto
  from open_pyaudio_raise_bindings [OF f] r
  have "close s' = close s \<and> do_play s' = do_play s"
    by simp
  with assms True r e show ?thesis
    by (simp add: open_session_unfold no_candidate_succeeds_def warn_def modify_def)
qed

lemma play_default:
  assumes "default_bound s" "no_candidate_succeeds E s"
  shows "fst (play E data rate s) = Inr ()"
proof -
  have "fst (open_session E s) = Inr ()"
    by (simp add: open_session_def open_loop_returns)
  moreover have "do_play (snd (open_session E s)) = Play_default"
    using no_candidate_bindings [OF assms(2)] assms(1) by (simp add: default_bound_def)
  ultimately show ?thesis using assms(1)
    by (cases "open_session E s")
       (auto simp: play_def seq_def ret_def call_do_play_def m_play_def default_bound_def)
qed

text \<open>
  Claim C1. \<open>open\<close> never raises, from any state of any session. It walks the list
  pyaudio, ossaudiodev: when pyaudio is available and \<open>open_pyaudio\<close> raises, the
  warning is issued and the loop goes on with the rest of the list. When no candidate
  succeeds, a session whose \<open>close\<close> and \<open>_do_play\<close> are the methods that do nothing
  keeps them, and a \<open>play\<close> that follows, with still no candidate that succeeds,
  returns without raising.
\<close>

theorem open_never_raises:
  "fst (open_session E s) = Inr () \<and>
   (audio_modules E ''pyaudio'' \<longrightarrow> fst (open_pyaudio E s) = Inl e \<longrightarrow>
      open_session E s =
        open_loop E [(''ossaudiodev'', Open_ossaudiodev)]
          (snd (warn ''failed to open audio module pyaudio'' (snd (open_pyaudio E s)))) \<and>
      warnings (snd (open_session E s)) =
        warnings s @ [''failed to open audio module pyaudio'']) \<and>
   (no_candidate_succeeds E s \<longrightarrow> default_bound s \<longrightarrow>
      default_bound (snd (open_session E s)) \<and>
      (no_candidate_succeeds E (snd (open_session E s)) \<longrightarrow>
         fst (play E data rate (snd (open_session E s))) = Inr ()))"
proof (intro conjI impI)
  show "fst (open_session E s) = Inr ()"
    by (simp add: open_session_def open_loop_returns)
next
  assume a: "audio_modules E ''pyaudio''" and f: "fst (open_pyaudio E s) = Inl e"
  obtain r s' where r: "open_pyaudio E s = (r, s')"
    by (cases "open_pyaudio E s")
  with f have "r = Inl e"
    by simp
  with a r show eq: "open_session E s =
        open_loop E [(''ossaudiodev'', Open_ossaudiodev)]
          (snd (warn ''failed to open audio module pyaudio'' (snd (open_pyaudio E s))))"
    by (simp add: open_session_unfold)
  show "warnings (snd (open_session E s)) =
        warnings s @ [''failed to open audio module pyaudio'']"
    by (simp only: eq open_loop_oss_warnings)
       (simp add: warn_def modify_def open_pyaudio_warnings)
next
  assume n: "no_candidate_succeeds E s" and d: "default_bound s"
  show "default_bound (snd (open_session E s))"
    using no_candidate_bindings [OF n] d by (simp add: default_bound_def)
next
  assume n: "no_candidate_succeeds E s" and d: "default_bound s"
    and n': "no_candidate_succeeds E (snd (open_session E s))"
  have "default_bound (snd (open_session E s))"
    using no_candidate_bindings [OF n] d by (simp add: default_bound_def)
  then show "fst (play E data rate (snd (open_session E s))) = Inr ()"
    using n' by (rule play_default)
qed

theorem open_never_raises_witness:
  "audio_modules (host [''pyaudio''] [PyAudio_new]) ''pyaudio'' \<and>
   fst (open_pyaudio (host [''pyaudio''] [PyAudio_new]) (world (Arr1 []))) =
     Inl (NativeError PyAudio_new) \<and>
   no_candidate_succeeds (host [''pyaudio''] [PyAudio_new]) (world (Arr1 [])) \<and>
   default_bound (world (Arr1 [])) \<and>
   no_candidate_succeeds (host [''pyaudio''] [PyAudio_new])
     (snd (open_session (host [''pyaudio''] [PyAudio_new]) (world (Arr1 [])))) \<and>
   fst (open_session (host [''pyaudio''] [PyAudio_new]) (world (Arr1 []))) = Inr () \<and>
   warnings (snd (open_session (host [''pyaudio''] [PyAudio_new]) (world (Arr1 [])))) =
     [''failed to open audio module pyaudio''] \<and>
   default_bound (snd (open_session (host [''pyaudio''] [PyAudio_new]) (world (Arr1 [])))) \<and>
   fst (play (host [''pyaudio''] [PyAudio_new]) 0 44100
          (snd (open_session (host [''pyaudio''] [PyAudio_new]) (world (Arr1 []))))) = Inr ()"
proof -
  let ?E = "host [''pyaudio''] [PyAudio_new]" and ?s = "world (Arr1 [])"
  have a: "audio_modules ?E ''pyaudio''" and o: "\<not> audio_modules ?E ''ossaudiodev''"
    by (simp_all add: host_def)
  have f: "\<And>s. fst (open_pyaudio ?E s) = Inl (NativeError PyAudio_new)"
    by (simp add: host_def open_pyaudio_def run_defs)
  have n: "\<And>s. no_candidate_succeeds ?E s"
    using o by (simp add: no_candidate_succeeds_def f)
  have d: "default_bound ?s"
    by (simp add: default_bound_def world_def)
  have w: "warnings ?s = []"
    by (simp add: world_def)
  have c: "fst (open_session ?E ?s) = Inr () \<and>
     warnings (snd (open_session ?E ?s)) =
       warnings ?s @ [''failed to open audio module pyaudio''] \<and>
     default_bound (snd (open_session ?E ?s)) \<and>
     fst (play ?E 0 44100 (snd (open_session ?E ?s))) = Inr ()"
    using open_never_raises [of ?E ?s "NativeError PyAudio_new" 0 44100] a f n d by blast
  show ?thesis using c a f n d w by simp
qed

section \<open>Exceptions that are never raised\<close>

lemma nr_seq:
  "never_raises e m \<Longrightarrow> (\<And>x. never_raises e (f x)) \<Longrightarrow> never_raises e (seq m f)"
  unfolding never_raises_def seq_def
  by (auto split: prod.splits sum.splits) (metis fst_conv)+

lemma nr_prims:
  "never_raises e (modify g)" "never_raises e (ret x)" "never_raises e (load a)"
  "never_raises e (new_array arr)" "never_raises e (idiv a v)" "never_raises e (warn msg)"
  by (auto simp: never_raises_def run_defs)



lemma nr_native: "\<forall>ev. e \<noteq> NativeError ev \<Longrightarrow> never_raises e (native E ev)"
  by (auto simp: never_raises_def native_def Let_def)

lemma nr_value_error: "e \<noteq> ValueError \<Longrightarrow> never_raises e (value_error r)"
  by (auto simp: never_raises_def run_defs split: option.splits)

lemma nr_handle_method:
  "\<forall>ev. e \<noteq> NativeError ev \<Longrightarrow> e \<noteq> AttributeError \<Longrightarrow> never_raises e (handle_method E ev)"
  by (auto simp: never_raises_def run_defs Let_def split: option.splits handle_obj.splits)


lemma nr_if:
  "never_raises e a \<Longrightarrow> never_raises e b \<Longrightarrow> never_raises e (\<lambda>s. if c s then a s else b s)"
  by (simp add: never_raises_def)

lemma nr_open_loop: "never_raises e (open_loop E cs)"
  by (simp add: never_raises_def open_loop_returns)

lemma nr_m_play_pyaudio:
  assumes "\<forall>ev. e \<noteq> NativeError ev" "e \<noteq> AttributeError" "e \<noteq> ValueError"
  shows "never_raises e (m_play_pyaudio E data rate)"
  unfolding m_play_pyaudio_def
  by (intro nr_seq nr_prims nr_native nr_value_error nr_handle_method assms)

lemma nr_m_play_ossaudiodev:
  assumes "\<forall>ev. e \<noteq> NativeError ev" "e \<noteq> ValueError"
  shows "never_raises e (m_play_ossaudiodev E data rate)"
  unfolding m_play_ossaudiodev_def
  by (intro nr_seq nr_prims nr_native nr_value_error assms)

lemma nr_call_do_play:
  assumes "\<forall>ev. e \<noteq> NativeError ev" "e \<noteq> AttributeError" "e \<noteq> ValueError"
  shows "never_raises e (call_do_play E data rate)"
  using nr_m_play_pyaudio [OF assms, of E data rate]
    nr_m_play_ossaudiodev [OF assms(1,3), of E data rate]
  by (auto simp: never_raises_def call_do_play_def m_play_def ret_def split: play_impl.splits)

lemma nr_play:
  assumes "\<forall>ev. e \<noteq> NativeError ev" "e \<noteq> AttributeError" "e \<noteq> ValueError"
  shows "never_raises e (play E data rate)"
  unfolding play_def open_session_def
  by (intro nr_seq nr_if nr_prims nr_open_loop nr_call_do_play assms)







section \<open>The context manager\<close>

text \<open>
  Claim C10, as the code has it. \<open>__exit__\<close> calls \<open>__del__\<close>, hence \<open>close\<close>, before
  it returns. When the body of \<open>with open_audio() as audio:\<close> raises an exception and
  that \<open>close\<close> returns, \<open>__exit__\<close> returns the exception, which is true as a truth
  value, and the \<open>with\<close> statement returns normally in the state \<open>close\<close> has left.
  When that \<open>close\<close> raises, \<open>__exit__\<close> does not return: the exception of \<open>close\<close>
  leaves the \<open>with\<close> statement in place of the one of the body.
\<close>

theorem exit_suppresses:
  assumes "body (snd (dunder_init E s0)) = (Inl e, s2)"
  shows "truthy (Some e) \<and>
     dunder_exit E (Some e) s2 =
       (case call_close E s2 of
          (Inl e', s3) \<Rightarrow> (Inl e', s3) | (Inr u, s3) \<Rightarrow> (Inr (Some e), s3)) \<and>
     with_open_audio E body s0 =
       (case call_close E s2 of
          (Inl e', s3) \<Rightarrow> (Inl e', s3) | (Inr u, s3) \<Rightarrow> (Inr (), s3))"
proof -
  have i: "fst (dunder_init E s0) = Inr ()"
    by (simp add: dunder_init_def seq_def modify_def open_session_def open_loop_returns)
  then obtain s1 where s1: "dunder_init E s0 = (Inr (), s1)"
    by (cases "dunder_init E s0") auto
  from assms s1 have b: "body s1 = (Inl e, s2)"
    by simp
  have x: "dunder_exit E (Some e) s2 =
       (case call_close E s2 of
          (Inl e', s3) \<Rightarrow> (Inl e', s3) | (Inr u, s3) \<Rightarrow> (Inr (Some e), s3))"
    by (simp add: dunder_exit_def dunder_del_def seq_def ret_def split: prod.splits sum.splits)
  have "with_open_audio E body s0 =
       (case call_close E s2 of
          (Inl e', s3) \<Rightarrow> (Inl e', s3) | (Inr u, s3) \<Rightarrow> (Inr (), s3))"
    by (simp add: with_open_audio_def seq_def [of "dunder_init E"] s1 dunder_enter_def
                  seq_def [of "ret ()"] ret_def b seq_def [of "dunder_exit E (Some e)"] x
             split: prod.splits sum.splits)
  with x show ?thesis
    by simp
qed


theorem exit_suppresses_witness:
  "play (host [''ossaudiodev''] []) 0 44100
      (snd (dunder_init (host [''ossaudiodev''] []) (world (Arr1 [])))) =
     (Inl ValueError,
      snd (play (host [''ossaudiodev''] []) 0 44100
             (snd (dunder_init (host [''ossaudiodev''] []) (world (Arr1 [])))))) \<and>
   fst (with_open_audio (host [''ossaudiodev''] []) (play (host [''ossaudiodev''] []) 0 44100)
         (world (Arr1 []))) = Inr () \<and>
   calls (snd (with_open_audio (host [''ossaudiodev''] [])
                 (play (host [''ossaudiodev''] []) 0 44100) (world (Arr1 [])))) =
     [Oss_open, Oss_setfmt, Oss_channels 1, Oss_speed 44100, Oss_close]"
proof -
  let ?E = "host [''ossaudiodev''] []" and ?w = "world (Arr1 [])"
  let ?s2 = "snd (play ?E 0 44100 (snd (dunder_init ?E ?w)))"
  have b1: "fst (play ?E 0 44100 (snd (dunder_init ?E ?w))) = Inl ValueError"
    by (simp add: method_defs run_defs host_def world_def np_max_def)
  then have b: "play ?E 0 44100 (snd (dunder_init ?E ?w)) = (Inl ValueError, ?s2)"
    by (simp add: prod_eq_iff)
  have c: "fst (call_close ?E ?s2) = Inr ()"
    by (simp add: method_defs run_defs host_def world_def np_max_def)
  have k: "calls (snd (call_close ?E ?s2)) =
      [Oss_open, Oss_setfmt, Oss_channels 1, Oss_speed 44100, Oss_close]"
    by (simp add: method_defs run_defs host_def world_def np_max_def py_int_def)
  from exit_suppresses [of "play ?E 0 44100" ?E ?w ValueError ?s2, OF b] c
  have "with_open_audio ?E (play ?E 0 44100) ?w = (Inr (), snd (call_close ?E ?s2))"
    by (cases "call_close ?E ?s2") auto
  with b k show ?thesis
    by simp
qed

text \<open>
  Claim C10 as stated fails: on a host where \<open>terminate\<close> raises, the body's ValueError
  (\<open>play\<close> of an empty buffer) is followed by the exception of \<open>close\<close>, which leaves
  the \<open>with\<close> statement.
\<close>

theorem exit_close_raises_counterexample:
  "fst (with_open_audio (host [''pyaudio''] [PyAudio_terminate])
         (play (host [''pyaudio''] [PyAudio_terminate]) 0 44100) (world (Arr1 []))) =
     Inl (NativeError PyAudio_terminate)"
  by (simp add: with_open_audio_def dunder_enter_def dunder_exit_def dunder_del_def
        method_defs run_defs host_def world_def np_max_def)


section \<open>Closing a session\<close>

lemma pyaudio_session_eq:
  "pyaudio_session d =
     \<lparr>handle = Some PyAudio_obj, stream = None, osshandle = None, close = Close_pyaudio,
      do_play = Play_pyaudio, store = (\<lambda>_. Arr1 [])(0 := d), next_addr = 1,
      calls = [Os_dup_stderr, Os_close_stderr, Os_open ''tmpfile.tmp'', PyAudio_new,
               Os_close_stderr, Os_dup_saved, Os_close_saved, Os_remove ''tmpfile.tmp''],
      warnings = []\<rparr>"
  by (simp add: pyaudio_session_def method_defs run_defs host_def world_def)

lemma ossaudiodev_session_eq:
  "ossaudiodev_session d =
     \<lparr>handle = Some True_obj, stream = None, osshandle = None, close = Close_ossaudiodev,
      do_play = Play_ossaudiodev, store = (\<lambda>_. Arr1 [])(0 := d), next_addr = 1,
      calls = [], warnings = []\<rparr>"
  by (simp add: ossaudiodev_session_def method_defs run_defs host_def world_def)

text \<open>
  Claim C7 does not hold of \<open>_close_pyaudio\<close>. On a session opened with pyaudio,
  \<open>close\<close> leaves \<open>self.handle\<close> as it was, and two calls of \<open>close\<close> in succession,
  neither of which raises on this host, call \<open>terminate\<close> on the same PyAudio object
  twice. \<open>_close_ossaudiodev\<close> does set \<open>self.handle\<close> to \<open>None\<close>.
\<close>

theorem close_pyaudio_keeps_handle:
  "handle (snd (call_close (host [''pyaudio''] [])
                  (pyaudio_session (Arr1 [Fin 1, Fin (- 1)])))) = Some PyAudio_obj \<and>
   fst (seq (call_close (host [''pyaudio''] [])) (\<lambda>_. call_close (host [''pyaudio''] []))
          (pyaudio_session (Arr1 [Fin 1, Fin (- 1)]))) = Inr () \<and>
   calls (snd (seq (call_close (host [''pyaudio''] [])) (\<lambda>_. call_close (host [''pyaudio''] []))
                 (pyaudio_session (Arr1 [Fin 1, Fin (- 1)])))) =
     calls (pyaudio_session (Arr1 [Fin 1, Fin (- 1)])) @
       [PyAudio_terminate, PyAudio_terminate] \<and>
   handle (snd (call_close (host [''ossaudiodev''] [])
                  (ossaudiodev_session (Arr1 [Fin 1, Fin (- 1)])))) = None"
  by (simp add: pyaudio_session_eq ossaudiodev_session_eq method_defs run_defs host_def
                world_def)

text \<open>
  Claim C8 does not hold of a session opened with pyaudio. After \<open>close\<close> the handle is
  not \<open>None\<close>, so the \<open>play\<close> that follows does not call \<open>open\<close>: no new PyAudio
  object is made, and the stream is opened on the object that has been terminated.
\<close>

theorem closed_pyaudio_not_reopened:
  "handle (snd (call_close (host [''pyaudio''] [])
                  (pyaudio_session (Arr1 [Fin 1, Fin (- 1)])))) \<noteq> None \<and>
   calls (snd (seq (call_close (host [''pyaudio''] [])) (\<lambda>_. play (host [''pyaudio''] []) 0 8000)
                 (pyaudio_session (Arr1 [Fin 1, Fin (- 1)])))) =
     calls (pyaudio_session (Arr1 [Fin 1, Fin (- 1)])) @
       [PyAudio_terminate, PyAudio_open 1 8000, Stream_write (Arr1 [16384, - 16384, 0, 0]),
        Stream_stop_stream, Stream_close]"
  by (simp add: pyaudio_session_eq method_defs run_defs host_def world_def numpy_defs
                replicate_numeral)

section \<open>The caller's buffer\<close>

lemma keeps_seq: "keeps n m \<Longrightarrow> (\<And>x. keeps n (f x)) \<Longrightarrow> keeps n (seq m f)"
  unfolding keeps_def seq_def
  by (auto split: prod.splits sum.splits)

lemma keeps_seq_new: "(\<And>a. n \<le> a \<Longrightarrow> keeps n (f a)) \<Longrightarrow> keeps n (seq (new_array arr) f)"
  unfolding keeps_def seq_def new_array_def
  by (auto split: prod.splits sum.splits)

lemma keeps_prims:
  "keeps n (native E ev)" "keeps n (ret x)" "keeps n (raise e)" "keeps n (load a)"
  "keeps n (value_error r)" "keeps n (handle_method E ev)" "keeps n (warn msg)"
  "keeps n (new_array arr)"
  by (auto simp: keeps_def run_defs Let_def split: option.splits handle_obj.splits)

lemma keeps_fields:
  "keeps n (modify (\<lambda>s. s\<lparr>handle := h\<rparr>))" "keeps n (modify (\<lambda>s. s\<lparr>stream := st\<rparr>))"
  "keeps n (modify (\<lambda>s. s\<lparr>osshandle := os\<rparr>))" "keeps n (modify (\<lambda>s. s\<lparr>close := c\<rparr>))"
  "keeps n (modify (\<lambda>s. s\<lparr>do_play := p\<rparr>))"
  by (simp_all add: keeps_def modify_def)

lemma keeps_idiv: "n \<le> a \<Longrightarrow> keeps n (idiv a v)"
  by (simp add: keeps_def idiv_def modify_def)

lemma keeps_if: "keeps n a \<Longrightarrow> keeps n b \<Longrightarrow> keeps n (\<lambda>s. if c s then a s else b s)"
  by (simp add: keeps_def)

lemma keeps_open_pyaudio: "keeps n (open_pyaudio E)"
  unfolding open_pyaudio_def
  apply (rule keeps_if [where c = "\<lambda>s. \<not> audio_modules E ''pyaudio''"])
  by (intro keeps_seq keeps_prims keeps_fields)+

lemma keeps_open_ossaudiodev: "keeps n (open_ossaudiodev E)"
  unfolding open_ossaudiodev_def
  apply (rule keeps_if [where c = "\<lambda>s. \<not> audio_modules E ''ossaudiodev''"])
  by (intro keeps_seq keeps_prims keeps_fields)+

lemma keeps_open_device: "keeps n (open_device E dev)"
  by (cases dev) (simp_all add: keeps_open_pyaudio keeps_open_ossaudiodev)

lemma keeps_open_loop: "keeps n (open_loop E cs)"
proof (induction cs)
  case Nil
  show ?case by (simp add: keeps_def)
next
  case (Cons c cs)
  obtain lib dev where c: "c = (lib, dev)" by (cases c)
  show ?case
    unfolding keeps_def
  proof (intro allI impI)
    fix s :: state assume n: "n \<le> next_addr s"
    show "n \<le> next_addr (snd (open_loop E (c # cs) s)) \<and>
          (\<forall>a<n. store (snd (open_loop E (c # cs) s)) a = store s a)"
    proof (cases "audio_modules E lib")
      case False
      with Cons n c show ?thesis by (simp add: keeps_def)
    next
      case True
      obtain r s' where r: "open_device E dev s = (r, s')" by (cases "open_device E dev s")
      from keeps_open_device [of n E dev] n r
      have k: "n \<le> next_addr s' \<and> (\<forall>a<n. store s' a = store s a)"
        by (auto simp: keeps_def)
      show ?thesis
      proof (cases r)
        case (Inr u)
        with True r c k show ?thesis by simp
      next
        case (Inl e)
        let ?w = "snd (warn (''failed to open audio module '' @ lib) s')"
        from k have "n \<le> next_addr ?w \<and> (\<forall>a<n. store ?w a = store s a)"
          by (simp add: warn_def modify_def)
        with Cons have "n \<le> next_addr (snd (open_loop E cs ?w)) \<and>
            (\<forall>a<n. store (snd (open_loop E cs ?w)) a = store s a)"
          by (simp add: keeps_def)
        with True r c Inl show ?thesis by simp
      qed
    qed
  qed
qed

lemma keeps_m_play_pyaudio: "keeps n (m_play_pyaudio E data rate)"
  unfolding m_play_pyaudio_def
  by (rule keeps_seq_new | rule keeps_seq | rule keeps_prims | rule keeps_fields
      | rule keeps_idiv | assumption)+

lemma keeps_m_play_ossaudiodev: "keeps n (m_play_ossaudiodev E data rate)"
  unfolding m_play_ossaudiodev_def
  by (rule keeps_seq_new | rule keeps_seq | rule keeps_prims | rule keeps_fields
      | rule keeps_idiv | assumption)+

lemma keeps_call_do_play: "keeps n (call_do_play E data rate)"
  using keeps_m_play_pyaudio [of n E data rate] keeps_m_play_ossaudiodev [of n E data rate]
  by (auto simp: keeps_def call_do_play_def m_play_def ret_def split: play_impl.splits)

lemma keeps_play: "keeps n (play E data rate)"
  unfolding play_def open_session_def
  by (intro keeps_seq keeps_if keeps_prims keeps_open_loop keeps_call_do_play)

text \<open>
  Claim C9. \<open>play(data, rate)\<close> leaves the caller's buffer, an array that exists when
  \<open>play\<close> is called, as it is: \<open>data - np.mean(data, axis=0)\<close> makes a new array, and
  the division in place and the padding act on the new arrays only.
\<close>

theorem play_leaves_input:
  "data < next_addr s \<Longrightarrow> store (snd (play E data rate s)) data = store s data"
  using keeps_play [of "next_addr s" E data rate] by (simp add: keeps_def)

theorem play_leaves_input_witness:
  "0 < next_addr (pyaudio_session (Arr1 [Fin 1, Fin (- 1)])) \<and>
   store (snd (play (host [''pyaudio''] []) 0 8000 (pyaudio_session (Arr1 [Fin 1, Fin (- 1)]))))
     0 = Arr1 [Fin 1, Fin (- 1)]"
  using play_leaves_input
    [of 0 "pyaudio_session (Arr1 [Fin 1, Fin (- 1)])" "host [''pyaudio''] []" 8000]
  by (simp add: pyaudio_session_eq)

section \<open>The sample pipeline\<close>

lemma m_play_ossaudiodev_Inr:
  assumes "m_play_ossaudiodev E data rate s = (Inr (), s')"
  shows "\<exists>r. normalized (store s data) = Some r \<and>
     s' = s\<lparr>osshandle := None, store := (store s)(next_addr s := r),
            next_addr := Suc (next_addr s),
            calls := calls s @ [Oss_open, Oss_setfmt, Oss_channels (channels_of (store s data)),
               Oss_speed (py_int rate), Oss_writeall (quantize (undef_cast E) r), Oss_close]\<rparr>"
  using assms
  by (auto simp: m_play_ossaudiodev_def normalized_def run_defs Let_def
           split: if_splits option.splits)

lemma m_play_pyaudio_Inr:
  assumes "m_play_pyaudio E data rate s = (Inr (), s')"
  shows "\<exists>r p. normalized (store s data) = Some r \<and>
     pad (channels_of (store s data)) r = Some p \<and>
     s' = s\<lparr>stream := None, store := (store s)(next_addr s := r, Suc (next_addr s) := p),
            next_addr := Suc (Suc (next_addr s)),
            calls := calls s @ [PyAudio_open (channels_of (store s data)) (py_int rate),
               Stream_write (quantize (undef_cast E) p), Stream_stop_stream, Stream_close]\<rparr>"
  using assms
  by (auto simp: m_play_pyaudio_def normalized_def run_defs Let_def
           split: if_splits option.splits handle_obj.splits)

lemma np_sum_zeros: "list_all (\<lambda>x. x = Fin 0) xs \<Longrightarrow> np_sum xs = Fin 0"
  by (induction xs) (auto simp: np_sum_def)

lemma np_mean_zeros: "list_all (\<lambda>x. x = Fin 0) xs \<Longrightarrow> xs \<noteq> [] \<Longrightarrow> np_mean xs = Fin 0"
  by (simp add: np_mean_def np_sum_zeros)

lemma foldl_max_zeros:
  "list_all (\<lambda>x. x = Fin 0) xs \<Longrightarrow> foldl np_maximum (Fin 0) xs = Fin 0"
  by (induction xs) (auto simp: np_maximum_def)

lemma np_max_zeros: "list_all (\<lambda>x. x = Fin 0) xs \<Longrightarrow> xs \<noteq> [] \<Longrightarrow> np_max xs = Some (Fin 0)"
  by (cases xs) (auto simp: np_max_def foldl_max_zeros)

lemma map_zeros:
  "list_all (\<lambda>x. x = Fin 0) xs \<Longrightarrow> map (\<lambda>x. np_sub x (Fin 0)) xs = xs"
  by (induction xs) (auto simp: np_sub_def)

lemma sub_mean_silent: "silent d \<Longrightarrow> sub_mean_axis0 d = d"
proof (cases d)
  case (Arr1 xs)
  assume "silent d"
  with Arr1 show ?thesis
    by (simp add: silent_def np_mean_zeros map_zeros)
next
  case (Arr2 c rows)
  assume s: "silent d"
  with Arr2 have w: "\<forall>r\<in>set rows. length r = c" and z: "\<forall>r\<in>set rows. list_all (\<lambda>x. x = Fin 0) r"
    and ne: "rows \<noteq> []"
    by (auto simp: silent_def list_all_iff)
  have m: "map (\<lambda>j. np_mean (map (\<lambda>r. r ! j) rows)) [0..<c] = replicate c (Fin 0)"
  proof (rule nth_equalityI)
    show "length (map (\<lambda>j. np_mean (map (\<lambda>r. r ! j) rows)) [0..<c]) = length (replicate c (Fin 0::npfloat))"
      by simp
  next
    fix i assume "i < length (map (\<lambda>j. np_mean (map (\<lambda>r. r ! j) rows)) [0..<c])"
    then have i: "i < c" by simp
    have "list_all (\<lambda>x. x = Fin 0) (map (\<lambda>r. r ! i) rows)"
      using w z i by (auto simp: list_all_iff)
    then have "np_mean (map (\<lambda>r. r ! i) rows) = Fin 0"
      using ne by (simp add: np_mean_zeros)
    with i show "map (\<lambda>j. np_mean (map (\<lambda>r. r ! j) rows)) [0..<c] ! i = replicate c (Fin 0) ! i"
      by simp
  qed
  have r: "\<And>r. r \<in> set rows \<Longrightarrow> map2 np_sub r (replicate c (Fin 0)) = r"
  proof -
    fix r assume a: "r \<in> set rows"
    with w z have l: "length r = c" and zz: "list_all (\<lambda>x. x = Fin 0) r" by auto
    from zz have "r = replicate (length r) (Fin 0)"
      by (induction r) auto
    with l have e: "r = replicate c (Fin 0)"
      by simp
    show "map2 np_sub r (replicate c (Fin 0)) = r"
      by (subst (1 2) e) (simp add: np_sub_def)
  qed
  have "map (\<lambda>r. map2 np_sub r (replicate c (Fin 0))) rows = rows"
    using r by (simp add: map_idI)
  with Arr2 m show ?thesis
    by simp
qed

lemma normalized_silent:
  assumes "silent d"
  shows "normalized d = Some (map_ndarray (\<lambda>_. NaN) d)"
proof -
  from assms have m: "np_max (flat d) = Some (Fin 0)"
    by (simp add: silent_def np_max_zeros)
  have z: "\<And>z. z \<in> set_ndarray d \<Longrightarrow> z = Fin 0"
    using assms by (cases d) (auto simp: silent_def list_all_iff)
  have "map_ndarray (\<lambda>x. np_div x (Fin 0)) d = map_ndarray (\<lambda>_. NaN) d"
  proof (rule ndarray.map_cong0)
    fix x assume "x \<in> set_ndarray d"
    then have "x = Fin 0"
      by (rule z)
    then show "np_div x (Fin 0) = NaN"
      by (simp add: signed_inf_def)
  qed
  with m show ?thesis
    by (simp add: normalized_def sub_mean_silent [OF assms])
qed


lemma sub_mean_shape:
  "channels_of (sub_mean_axis0 d) = channels_of d \<and> len (sub_mean_axis0 d) = len d"
  by (cases d) (simp_all add: Let_def)

lemma map_ndarray_shape:
  "channels_of (map_ndarray f d) = channels_of d \<and> len (map_ndarray f d) = len d"
  by (cases d) simp_all

lemma normalized_shape:
  "normalized d = Some r \<Longrightarrow> channels_of r = channels_of d \<and> len r = len d"
  by (auto simp: normalized_def sub_mean_shape map_ndarray_shape split: option.splits)

lemma flat_map_ndarray: "flat (map_ndarray f d) = map f (flat d)"
  by (cases d) (simp_all add: map_concat)

lemma frames_from_map_ndarray: "frames_from k (map_ndarray f d) = map f (frames_from k d)"
  by (cases d) (simp_all add: map_concat drop_map)

lemma pad_cases:
  assumes "pad (channels_of r) r = Some p"
  shows "(\<exists>xs. r = Arr1 xs \<and> p = Arr1 (xs @ replicate (11 * length xs div 10) (Fin 0))) \<or>
         (\<exists>c rows. r = Arr2 c rows \<and> 1 < c \<and>
            p = Arr2 c (rows @ replicate (11 * length rows div 10) (replicate c (Fin 0))))"
  using assms
  by (cases r) (auto simp: pad_def np_zeros1_def np_zeros2_def np_vstack_def split: if_splits)

lemma pad_len:
  "pad (channels_of r) r = Some p \<Longrightarrow> len p = len r + 11 * len r div 10"
  by (drule pad_cases) auto

lemma pad_tail:
  "pad (channels_of r) r = Some p \<Longrightarrow> list_all (\<lambda>x. x = Fin 0) (frames_from (len r) p)"
  by (drule pad_cases) (auto simp: list_all_iff split: if_splits)

lemma concat_replicate_zeros:
  "concat (replicate m (replicate c x)) = replicate (m * c) x"
  by (induction m) (simp_all add: replicate_add)

lemma pad_flat:
  "pad (channels_of r) r = Some p \<Longrightarrow> \<exists>k. flat p = flat r @ replicate k (Fin 0)"
  by (drule pad_cases) (auto simp: concat_replicate_zeros)

lemma quantize_zeros:
  "list_all (\<lambda>x. x = Fin 0) xs \<Longrightarrow>
   list_all (\<lambda>x. x = 0) (map (\<lambda>v. astype_i2 u (np_round (np_mul (Fin 32768) v))) xs)"
  by (induction xs) (simp_all add: astype_i2_def round_half_even_def py_int_def)

text \<open>
  Claim C3, as the code has it. No \<open>play\<close> raises a division error. For a silent
  buffer the division is not skipped: \<open>np.max\<close> is 0, numpy divides every sample by
  \<open>0 * 2.0\<close> and the normalized buffer holds \<open>nan\<close> in every sample, on either
  write path. Every sample written for an input frame is the platform's conversion of
  \<open>nan\<close> to 16 bits (the frames appended on the pyaudio path are 0), so that the
  output is all zeros exactly where that conversion gives 0.
\<close>

theorem silence_not_guarded:
  "fst (play E data rate s) \<noteq> Inl ZeroDivisionError \<and>
   (silent (store s data) \<longrightarrow> m_play_ossaudiodev E data rate s = (Inr (), s') \<longrightarrow>
      store s' (next_addr s) = map_ndarray (\<lambda>_. NaN) (store s data) \<and>
      calls s' = calls s @
        [Oss_open, Oss_setfmt, Oss_channels (channels_of (store s data)), Oss_speed (py_int rate),
         Oss_writeall (map_ndarray (\<lambda>_. undef_cast E NaN) (store s data)), Oss_close]) \<and>
   (silent (store s data) \<longrightarrow> m_play_pyaudio E data rate s = (Inr (), s'') \<longrightarrow>
      store s'' (next_addr s) = map_ndarray (\<lambda>_. NaN) (store s data) \<and>
      (\<exists>ad k. calls s'' = calls s @
          [PyAudio_open (channels_of (store s data)) (py_int rate), Stream_write ad,
           Stream_stop_stream, Stream_close] \<and>
        flat ad = map (\<lambda>_. undef_cast E NaN) (flat (store s data)) @ replicate k 0))"
proof (intro conjI impI)
  show "fst (play E data rate s) \<noteq> Inl ZeroDivisionError"
    using nr_play [of ZeroDivisionError E data rate] by (simp add: never_raises_def)
next
  assume z: "silent (store s data)" and r: "m_play_ossaudiodev E data rate s = (Inr (), s')"
  from m_play_ossaudiodev_Inr [OF r] normalized_silent [OF z]
  have s': "s' = s\<lparr>osshandle := None,
       store := (store s)(next_addr s := map_ndarray (\<lambda>_. NaN) (store s data)),
       next_addr := Suc (next_addr s),
       calls := calls s @ [Oss_open, Oss_setfmt, Oss_channels (channels_of (store s data)),
          Oss_speed (py_int rate),
          Oss_writeall (quantize (undef_cast E) (map_ndarray (\<lambda>_. NaN) (store s data))),
          Oss_close]\<rparr>"
    by auto
  have q: "quantize (undef_cast E) (map_ndarray (\<lambda>_. NaN) (store s data)) =
      map_ndarray (\<lambda>_. undef_cast E NaN) (store s data)"
    by (simp add: quantize_def ndarray.map_comp comp_def astype_i2_def)
  show "store s' (next_addr s) = map_ndarray (\<lambda>_. NaN) (store s data)"
    by (simp add: s')
  show "calls s' = calls s @
        [Oss_open, Oss_setfmt, Oss_channels (channels_of (store s data)), Oss_speed (py_int rate),
         Oss_writeall (map_ndarray (\<lambda>_. undef_cast E NaN) (store s data)), Oss_close]"
    by (simp add: s' q)
next
  assume z: "silent (store s data)" and r: "m_play_pyaudio E data rate s = (Inr (), s'')"
  let ?r = "map_ndarray (\<lambda>_. NaN) (store s data)"
  from m_play_pyaudio_Inr [OF r] normalized_silent [OF z]
  obtain p where p: "pad (channels_of (store s data)) ?r = Some p"
    and s'': "s'' = s\<lparr>stream := None,
       store := (store s)(next_addr s := ?r, Suc (next_addr s) := p),
       next_addr := Suc (Suc (next_addr s)),
       calls := calls s @ [PyAudio_open (channels_of (store s data)) (py_int rate),
          Stream_write (quantize (undef_cast E) p), Stream_stop_stream, Stream_close]\<rparr>"
    by auto
  show "store s'' (next_addr s) = ?r"
    by (simp add: s'')
  from p have "pad (channels_of ?r) ?r = Some p"
    by (simp add: map_ndarray_shape)
  from pad_flat [OF this] obtain k where "flat p = flat ?r @ replicate k (Fin 0)"
    by blast
  then have "flat (quantize (undef_cast E) p) =
      map (\<lambda>_. undef_cast E NaN) (flat (store s data)) @ replicate k 0"
    by (simp add: quantize_def flat_map_ndarray comp_def astype_i2_def round_half_even_def
          py_int_def)
  moreover have "calls s'' = calls s @
      [PyAudio_open (channels_of (store s data)) (py_int rate),
       Stream_write (quantize (undef_cast E) p), Stream_stop_stream, Stream_close]"
    by (simp add: s'')
  ultimately
  show "\<exists>ad k. calls s'' = calls s @
          [PyAudio_open (channels_of (store s data)) (py_int rate), Stream_write ad,
           Stream_stop_stream, Stream_close] \<and>
        flat ad = map (\<lambda>_. undef_cast E NaN) (flat (store s data)) @ replicate k 0"
    by blast
qed

theorem silence_not_guarded_witness:
  "silent (store (pyaudio_session (Arr1 [Fin 0, Fin 0])) 0) \<and>
   m_play_ossaudiodev (host [''pyaudio'', ''ossaudiodev''] []) 0 8000
       (pyaudio_session (Arr1 [Fin 0, Fin 0])) =
     (Inr (), snd (m_play_ossaudiodev (host [''pyaudio'', ''ossaudiodev''] []) 0 8000
                     (pyaudio_session (Arr1 [Fin 0, Fin 0])))) \<and>
   m_play_pyaudio (host [''pyaudio'', ''ossaudiodev''] []) 0 8000
       (pyaudio_session (Arr1 [Fin 0, Fin 0])) =
     (Inr (), snd (m_play_pyaudio (host [''pyaudio'', ''ossaudiodev''] []) 0 8000
                     (pyaudio_session (Arr1 [Fin 0, Fin 0])))) \<and>
   store (snd (m_play_ossaudiodev (host [''pyaudio'', ''ossaudiodev''] []) 0 8000
                 (pyaudio_session (Arr1 [Fin 0, Fin 0])))) 1 = Arr1 [NaN, NaN] \<and>
   store (snd (m_play_pyaudio (host [''pyaudio'', ''ossaudiodev''] []) 0 8000
                 (pyaudio_session (Arr1 [Fin 0, Fin 0])))) 1 = Arr1 [NaN, NaN]"
proof -
  let ?E = "host [''pyaudio'', ''ossaudiodev''] []"
  let ?s = "pyaudio_session (Arr1 [Fin 0, Fin 0])"
  have z: "silent (store ?s 0)"
    by (simp add: pyaudio_session_eq silent_def)
  have o: "m_play_ossaudiodev ?E 0 8000 ?s = (Inr (), snd (m_play_ossaudiodev ?E 0 8000 ?s))"
    by (simp add: prod_eq_iff pyaudio_session_eq m_play_ossaudiodev_def run_defs host_def
          numpy_defs signed_inf_def)
  have p: "m_play_pyaudio ?E 0 8000 ?s = (Inr (), snd (m_play_pyaudio ?E 0 8000 ?s))"
    by (simp add: prod_eq_iff pyaudio_session_eq m_play_pyaudio_def run_defs host_def
          numpy_defs signed_inf_def)
  have n: "next_addr ?s = 1" and d: "store ?s 0 = Arr1 [Fin 0, Fin 0]"
    by (simp_all add: pyaudio_session_eq)
  from silence_not_guarded [of ?E 0 8000 ?s "snd (m_play_ossaudiodev ?E 0 8000 ?s)"
      "snd (m_play_pyaudio ?E 0 8000 ?s)"] z o p
  have "store (snd (m_play_ossaudiodev ?E 0 8000 ?s)) (next_addr ?s) =
          map_ndarray (\<lambda>_. NaN) (store ?s 0) \<and>
        store (snd (m_play_pyaudio ?E 0 8000 ?s)) (next_addr ?s) =
          map_ndarray (\<lambda>_. NaN) (store ?s 0)"
    by blast
  then have "store (snd (m_play_ossaudiodev ?E 0 8000 ?s)) 1 = Arr1 [NaN, NaN] \<and>
        store (snd (m_play_pyaudio ?E 0 8000 ?s)) 1 = Arr1 [NaN, NaN]"
    by (simp only: n d) simp
  with z o p show ?thesis
    by blast
qed

text \<open>
  Claim C3 as stated fails: after \<open>play\<close> of two zero samples the normalized array,
  the first array made by the call, holds \<open>nan\<close>; had the division been skipped it
  would hold the zeros.
\<close>

theorem silence_divides_counterexample:
  "store (snd (play (host [''ossaudiodev''] []) 0 8000
                 (ossaudiodev_session (Arr1 [Fin 0, Fin 0])))) 1 = Arr1 [NaN, NaN]"
  by (simp add: ossaudiodev_session_eq method_defs run_defs host_def numpy_defs signed_inf_def)

text \<open>
  Claim C5 does not hold of the code, which divides by twice \<open>np.max(rawdata)\<close>, the
  largest sample and not the largest absolute value. For the samples 1, 1, -2 (mean 0,
  largest sample 1) the normalized buffer is 0.5, 0.5, -1.0: the last sample has
  absolute value 1, twice the bound of the claim, and is written as -32768.
\<close>

theorem normalize_by_signed_max:
  "store (snd (play (host [''ossaudiodev''] []) 0 8000
                 (ossaudiodev_session (Arr1 [Fin 1, Fin 1, Fin (- 2)])))) 1 =
     Arr1 [Fin (1 / 2), Fin (1 / 2), Fin (- 1)] \<and>
   calls (snd (play (host [''ossaudiodev''] []) 0 8000
                 (ossaudiodev_session (Arr1 [Fin 1, Fin 1, Fin (- 2)])))) =
     [Oss_open, Oss_setfmt, Oss_channels 1, Oss_speed 8000,
      Oss_writeall (Arr1 [16384, 16384, - 32768]), Oss_close]"
  by (simp add: ossaudiodev_session_eq method_defs run_defs host_def numpy_defs signed_inf_def)


text \<open>
  Claim C6, as the code has it. On the pyaudio path the normalized buffer is extended
  by \<open>11 * len / 10\<close> frames of zeros before it is quantized: the buffer written has
  \<open>len + 11 * len div 10\<close> frames, all samples after the first \<open>len\<close> frames being 0.
  On the ossaudiodev path nothing is appended: the buffer written has \<open>len\<close> frames.
\<close>

theorem padding_by_path:
  "(m_play_pyaudio E data rate s = (Inr (), s') \<longrightarrow>
      calls s' = calls s @
        [PyAudio_open (channels_of (store s data)) (py_int rate),
         Stream_write (quantize (undef_cast E) (store s' (Suc (next_addr s)))),
         Stream_stop_stream, Stream_close] \<and>
      len (quantize (undef_cast E) (store s' (Suc (next_addr s)))) =
        len (store s data) + 11 * len (store s data) div 10 \<and>
      list_all (\<lambda>x. x = 0)
        (frames_from (len (store s data))
           (quantize (undef_cast E) (store s' (Suc (next_addr s)))))) \<and>
   (m_play_ossaudiodev E data rate t = (Inr (), t') \<longrightarrow>
      calls t' = calls t @
        [Oss_open, Oss_setfmt, Oss_channels (channels_of (store t data)), Oss_speed (py_int rate),
         Oss_writeall (quantize (undef_cast E) (store t' (next_addr t))), Oss_close] \<and>
      len (quantize (undef_cast E) (store t' (next_addr t))) = len (store t data))"
proof (intro conjI impI)
  assume r: "m_play_pyaudio E data rate s = (Inr (), s')"
  from m_play_pyaudio_Inr [OF r]
  obtain r p where n: "normalized (store s data) = Some r"
    and p: "pad (channels_of (store s data)) r = Some p"
    and s': "s' = s\<lparr>stream := None,
       store := (store s)(next_addr s := r, Suc (next_addr s) := p),
       next_addr := Suc (Suc (next_addr s)),
       calls := calls s @ [PyAudio_open (channels_of (store s data)) (py_int rate),
          Stream_write (quantize (undef_cast E) p), Stream_stop_stream, Stream_close]\<rparr>"
    by auto
  have st: "store s' (Suc (next_addr s)) = p"
    by (simp add: s')
  from normalized_shape [OF n] p have p': "pad (channels_of r) r = Some p" and l: "len r = len (store s data)"
    by simp_all
  show "calls s' = calls s @
        [PyAudio_open (channels_of (store s data)) (py_int rate),
         Stream_write (quantize (undef_cast E) (store s' (Suc (next_addr s)))),
         Stream_stop_stream, Stream_close]"
    by (simp only: st) (simp add: s')
  show "len (quantize (undef_cast E) (store s' (Suc (next_addr s)))) =
        len (store s data) + 11 * len (store s data) div 10"
    using pad_len [OF p'] l by (simp add: st quantize_def map_ndarray_shape)
  from pad_tail [OF p'] l have "list_all (\<lambda>x. x = Fin 0) (frames_from (len (store s data)) p)"
    by simp
  then show "list_all (\<lambda>x. x = 0)
        (frames_from (len (store s data))
           (quantize (undef_cast E) (store s' (Suc (next_addr s)))))"
    by (simp add: st quantize_def frames_from_map_ndarray quantize_zeros)
next
  assume r: "m_play_ossaudiodev E data rate t = (Inr (), t')"
  from m_play_ossaudiodev_Inr [OF r]
  obtain r where n: "normalized (store t data) = Some r"
    and t': "t' = t\<lparr>osshandle := None, store := (store t)(next_addr t := r),
            next_addr := Suc (next_addr t),
            calls := calls t @ [Oss_open, Oss_setfmt, Oss_channels (channels_of (store t data)),
               Oss_speed (py_int rate), Oss_writeall (quantize (undef_cast E) r), Oss_close]\<rparr>"
    by auto
  have st: "store t' (next_addr t) = r"
    by (simp add: t')
  show "calls t' = calls t @
        [Oss_open, Oss_setfmt, Oss_channels (channels_of (store t data)), Oss_speed (py_int rate),
         Oss_writeall (quantize (undef_cast E) (store t' (next_addr t))), Oss_close]"
    by (simp only: st) (simp add: t')
  show "len (quantize (undef_cast E) (store t' (next_addr t))) = len (store t data)"
    using normalized_shape [OF n] by (simp add: st quantize_def map_ndarray_shape)
qed


theorem padding_by_path_witness:
  "m_play_pyaudio (host [''pyaudio'', ''ossaudiodev''] []) 0 8000
     (pyaudio_session (Arr1 [Fin 1, Fin (- 1)])) =
     (Inr (), snd (m_play_pyaudio (host [''pyaudio'', ''ossaudiodev''] []) 0 8000
                     (pyaudio_session (Arr1 [Fin 1, Fin (- 1)])))) \<and>
   m_play_ossaudiodev (host [''pyaudio'', ''ossaudiodev''] []) 0 8000
     (ossaudiodev_session (Arr1 [Fin 1, Fin (- 1)])) =
     (Inr (), snd (m_play_ossaudiodev (host [''pyaudio'', ''ossaudiodev''] []) 0 8000
                     (ossaudiodev_session (Arr1 [Fin 1, Fin (- 1)])))) \<and>
   len (quantize (undef_cast (host [''pyaudio'', ''ossaudiodev''] []))
          (store (snd (m_play_pyaudio (host [''pyaudio'', ''ossaudiodev''] []) 0 8000
                         (pyaudio_session (Arr1 [Fin 1, Fin (- 1)])))) 2)) = 4 \<and>
   len (quantize (undef_cast (host [''pyaudio'', ''ossaudiodev''] []))
          (store (snd (m_play_ossaudiodev (host [''pyaudio'', ''ossaudiodev''] []) 0 8000
                         (ossaudiodev_session (Arr1 [Fin 1, Fin (- 1)])))) 1)) = 2"
proof -
  let ?E = "host [''pyaudio'', ''ossaudiodev''] []"
  let ?s = "pyaudio_session (Arr1 [Fin 1, Fin (- 1)])"
  let ?t = "ossaudiodev_session (Arr1 [Fin 1, Fin (- 1)])"
  have p: "m_play_pyaudio ?E 0 8000 ?s = (Inr (), snd (m_play_pyaudio ?E 0 8000 ?s))"
    by (simp add: prod_eq_iff pyaudio_session_eq m_play_pyaudio_def run_defs host_def
          numpy_defs)
  have o: "m_play_ossaudiodev ?E 0 8000 ?t = (Inr (), snd (m_play_ossaudiodev ?E 0 8000 ?t))"
    by (simp add: prod_eq_iff ossaudiodev_session_eq m_play_ossaudiodev_def run_defs host_def
          numpy_defs)
  have n: "next_addr ?s = 1" "next_addr ?t = 1" "len (store ?s 0) = 2" "len (store ?t 0) = 2"
    by (simp_all add: pyaudio_session_eq ossaudiodev_session_eq)
  from padding_by_path [of ?E 0 8000 ?s "snd (m_play_pyaudio ?E 0 8000 ?s)" ?t
      "snd (m_play_ossaudiodev ?E 0 8000 ?t)"] p o
  have "len (quantize (undef_cast ?E) (store (snd (m_play_pyaudio ?E 0 8000 ?s))
               (Suc (next_addr ?s)))) = len (store ?s 0) + 11 * len (store ?s 0) div 10 \<and>
        len (quantize (undef_cast ?E) (store (snd (m_play_ossaudiodev ?E 0 8000 ?t))
               (next_addr ?t))) = len (store ?t 0)"
    by blast
  then have "len (quantize (undef_cast ?E) (store (snd (m_play_pyaudio ?E 0 8000 ?s)) 2)) = 4 \<and>
        len (quantize (undef_cast ?E) (store (snd (m_play_ossaudiodev ?E 0 8000 ?t)) 1)) = 2"
    by (simp only: n) (simp add: numeral_2_eq_2)
  with p o show ?thesis
    by blast
qed

text \<open>
  Claim C6 as stated fails: for ten samples the ossaudiodev path writes ten samples,
  and the pyaudio path writes twenty-one, eleven more and not about one.
\<close>

theorem padding_counterexample:
  "calls (snd (play (host [''ossaudiodev''] []) 0 8000
                 (ossaudiodev_session
                    (Arr1 [Fin 1, Fin (- 1), Fin 1, Fin (- 1), Fin 1, Fin (- 1), Fin 1, Fin (- 1),
                           Fin 1, Fin (- 1)])))) =
     [Oss_open, Oss_setfmt, Oss_channels 1, Oss_speed 8000,
      Oss_writeall (Arr1 [16384, - 16384, 16384, - 16384, 16384, - 16384, 16384, - 16384,
                          16384, - 16384]),
      Oss_close] \<and>
   calls (snd (play (host [''pyaudio''] []) 0 8000
                 (pyaudio_session
                    (Arr1 [Fin 1, Fin (- 1), Fin 1, Fin (- 1), Fin 1, Fin (- 1), Fin 1, Fin (- 1),
                           Fin 1, Fin (- 1)])))) =
     calls (pyaudio_session (Arr1 [])) @
     [PyAudio_open 1 8000,
      Stream_write (Arr1 [16384, - 16384, 16384, - 16384, 16384, - 16384, 16384, - 16384,
                          16384, - 16384, 0, 0, 0, 0, 0, 0, 0, 0, 0, 0, 0]),
      Stream_stop_stream, Stream_close]"
  by (simp add: ossaudiodev_session_eq pyaudio_session_eq method_defs run_defs host_def
        numpy_defs replicate_numeral)


section \<open>The ramp of beep\<close>

lemma pow2_powr: "pow2 k = 2 powr (of_int k)"
  by (simp add: pow2_def powr_real_of_int field_simps)

lemma pow2_pos: "0 < pow2 k"
  by (simp add: pow2_def)

lemma floor_log2:
  assumes "pow2 e \<le> a" "a < pow2 (e + 1)"
  shows "\<lfloor>log 2 a\<rfloor> = e"
proof (rule floor_unique)
  have a: "0 < a"
    using assms(1) pow2_pos [of e] by linarith
  show "of_int e \<le> log 2 a"
    using assms(1) a by (simp add: pow2_powr le_log_iff)
  show "log 2 a < of_int e + 1"
    using assms(2) a by (simp add: pow2_powr log_less_iff)
qed

lemma round_half_even_int: "round_half_even (of_int m) = m"
  by (simp add: round_half_even_def)

lemma binary64_exact:
  assumes "pow2 e \<le> \<bar>x\<bar>" "\<bar>x\<bar> < pow2 (e + 1)" "- 1022 \<le> e" "e < 1024"
    and "\<bar>x\<bar> / pow2 (e - 52) = of_int m"
  shows "binary64 x = Fin x"
proof -
  have x: "x \<noteq> 0"
    using assms(1) pow2_pos [of e] by auto
  have e: "max \<lfloor>log 2 \<bar>x\<bar>\<rfloor> (- 1022) = e"
    using floor_log2 [OF assms(1,2)] assms(3) by simp
  have "of_int (round_half_even (\<bar>x\<bar> / pow2 (e - 52))) = \<bar>x\<bar> / pow2 (e - 52)"
    by (simp only: assms(5) round_half_even_int)
  then have y: "of_int (round_half_even (\<bar>x\<bar> / pow2 (e - 52))) * pow2 (e - 52) = \<bar>x\<bar>"
    using pow2_pos [of "e - 52"] by simp
  have "pow2 (e + 1) \<le> pow2 1024"
    unfolding pow2_powr by (rule powr_mono) (use assms(4) in simp_all)
  with assms(2) have "\<not> pow2 1024 \<le> \<bar>x\<bar>"
    by linarith
  with x e y show ?thesis
    by (simp add: binary64_def Let_def sgn_real_def)
qed

lemma binary64_values:
  "binary64 (1 / 2) = Fin (1 / 2)" "binary64 1 = Fin 1" "binary64 2 = Fin 2"
  "binary64 4 = Fin 4" "binary64 (- 2) = Fin (- 2)"
      apply (rule binary64_exact [where e = "-1" and m = "2 ^ 52"]; simp add: pow2_def)
     apply (rule binary64_exact [where e = "0" and m = "2 ^ 52"]; simp add: pow2_def)
    apply (rule binary64_exact [where e = "1" and m = "2 ^ 52"]; simp add: pow2_def)
   apply (rule binary64_exact [where e = "2" and m = "2 ^ 52"]; simp add: pow2_def)
  apply (rule binary64_exact [where e = "1" and m = "2 ^ 52"]; simp add: pow2_def)
  done



lemma arange_length_len:
  "np_arange E stop step = Inr ts \<Longrightarrow> arange_length E stop step = Inr (length ts)"
  by (auto simp: np_arange_def split: sum.splits)


lemma binary64_round:
  assumes "pow2 e \<le> \<bar>x\<bar>" "\<bar>x\<bar> < pow2 (e + 1)" "- 1022 \<le> e"
    and "round_half_even (\<bar>x\<bar> / pow2 (e - 52)) = m"
    and "of_int m * pow2 (e - 52) < pow2 1024"
  shows "binary64 x = Fin (sgn x * (of_int m * pow2 (e - 52)))"
proof -
  have x: "x \<noteq> 0"
    using assms(1) pow2_pos [of e] by auto
  have e: "max \<lfloor>log 2 \<bar>x\<bar>\<rfloor> (- 1022) = e"
    using floor_log2 [OF assms(1,2)] assms(3) by simp
  from x e assms(4,5) show ?thesis
    by (simp add: binary64_def Let_def)
qed

lemma binary64_fifth: "binary64 (1 / 5) = Fin (3602879701896397 / 18014398509481984)"
proof -
  have "binary64 (1 / 5) = Fin (sgn (1 / 5) * (of_int 7205759403792794 * pow2 (- 3 - 52)))"
    by (rule binary64_round) (simp_all add: pow2_def round_half_even_def)
  then show ?thesis
    by (simp add: pow2_def)
qed

lemma binary64_three_halves:
  "binary64 (27021597764222975 / 18014398509481984) = Fin (3 / 2)"
proof -
  have "binary64 (27021597764222975 / 18014398509481984) =
      Fin (sgn (27021597764222975 / 18014398509481984) *
           (of_int 6755399441055744 * pow2 (0 - 52)))"
    by (rule binary64_round) (simp_all add: pow2_def round_half_even_def)
  then show ?thesis
    by (simp add: pow2_def)
qed






text \<open>
  The rounding decides. For \<open>beep(0.2, f, 5.0, 0.3)\<close> the arguments are the binary64
  numbers nearest to 0.2 and 0.3: \<open>1.0/5.0\<close> is the first of them, the quotient is 1
  and the buffer has one sample, while the product rounds to 1.5 and the count to 2;
  \<open>data[1]\<close> raises IndexError.
\<close>

lemma beep_rounded_example:
  "arange_length (host [] []) (3602879701896397 / 18014398509481984)
     (round64 (host [] []) (1 / 5)) = Inr 1 \<and>
   ramp_count (host [] []) (5404319552844595 / 18014398509481984) 5 = Inr 2 \<and>
   fst (beep (host [] []) (3602879701896397 / 18014398509481984) 0 5
          (5404319552844595 / 18014398509481984) (world (Arr1 []))) = Inl IndexError"
proof -
  have a: "arange_length (host [] []) (3602879701896397 / 18014398509481984)
     (round64 (host [] []) (1 / 5)) = Inr 1"
    by (simp add: host_def arange_length_def binary64_fifth binary64_values)
  have c: "ramp_count (host [] []) (5404319552844595 / 18014398509481984) 5 = Inr 2"
    by (simp add: host_def ramp_count_def binary64_three_halves round_half_even_def)
  have r: "round64 (host [] []) (1 / 5) = Fin (3602879701896397 / 18014398509481984)"
    by (simp add: host_def binary64_fifth)
  have "fst (beep (host [] []) (3602879701896397 / 18014398509481984) 0 5
          (5404319552844595 / 18014398509481984) (world (Arr1 []))) = Inl IndexError"
    by (simp add: beep_def np_arange_def a [unfolded r] c r lift_def xrange_def run_defs
          world_def imul_item_def item_def eval_nat_numeral)
  with a c show ?thesis
    by simp
qed


section \<open>Arguments are not validated\<close>














end
